theory Spec2Isabelle
  imports Complex_Main "HOL-Library.Word" "HOL-Library.Stream"
begin

section \<open>Starfield screensaver: the three variants\<close>

text \<open>
  The repository holds three programs that share function names:
  \<^item> \<^verbatim>\<open>src/Starfield/Starfield.cpp\<close>, the GDI variant (suffix \<open>_gdi\<close>);
  \<^item> \<^verbatim>\<open>src/unnamed/part_000\<close>, MyStarfield.cpp, the plain Direct2D variant (suffix \<open>_p0\<close>);
  \<^item> \<^verbatim>\<open>src/unnamed/part_001\<close>, the parameterized Direct2D variant (suffix \<open>_p1\<close>).
  Code that is literally the same in part_000 and part_001 carries the suffix \<open>_d2d\<close>.

  Modelling conventions.  C \<^verbatim>\<open>float\<close> and \<^verbatim>\<open>double\<close> values are modelled as
  \<^typ>\<open>real\<close> with exact arithmetic (no rounding, no NaN, no infinity); C \<^verbatim>\<open>int\<close> and
  \<^verbatim>\<open>LONG\<close> values are \<^typ>\<open>int\<close> (the programs' integer arithmetic stays far from
  the 32-bit limits for the configurations considered).  Pointers that the source checks
  against NULL appear as booleans or options.  The fields \<^verbatim>\<open>x\<close>, \<^verbatim>\<open>y\<close>, \<^verbatim>\<open>z\<close> of the
  \<^verbatim>\<open>Star\<close> structs are \<open>sx\<close>, \<open>sy\<close>, \<open>sz\<close> in the GDI variant and \<open>tx\<close>, \<open>ty\<close>, \<open>tz\<close> in
  the Direct2D variants, and the fields of a \<^verbatim>\<open>RECT\<close> carry the prefix \<open>rc_\<close>; every other
  name is the source's.
\<close>

unbundle bit_operations_syntax

subsection \<open>C and library primitives\<close>

text \<open>Integer division of C truncates toward zero.\<close>

definition c_div :: "int \<Rightarrow> int \<Rightarrow> int" where
  "c_div a b = (if (0 \<le> a) = (0 \<le> b) then \<bar>a\<bar> div \<bar>b\<bar> else - (\<bar>a\<bar> div \<bar>b\<bar>))"

text \<open>The conversion \<^verbatim>\<open>(int)f\<close> of a floating value truncates toward zero.\<close>

definition c_int :: "real \<Rightarrow> int" where
  "c_int v = (if 0 \<le> v then \<lfloor>v\<rfloor> else \<lceil>v\<rceil>)"

text \<open>\<^verbatim>\<open>lroundf\<close> rounds to the nearest integer, halves away from zero.\<close>

definition lroundf :: "real \<Rightarrow> int" where
  "lroundf v = (if 0 \<le> v then \<lfloor>v + 1 / 2\<rfloor> else \<lceil>v - 1 / 2\<rceil>)"

definition ceilf :: "real \<Rightarrow> int" where
  "ceilf v = \<lceil>v\<rceil>"

definition floorf :: "real \<Rightarrow> int" where
  "floorf v = \<lfloor>v\<rfloor>"

text \<open>
  A \<^verbatim>\<open>std::mt19937\<close> is a deterministic generator of 32-bit words: its state is
  represented by the stream of outputs it is going to produce.  A call \<^verbatim>\<open>rng()\<close>
  returns the head and leaves the tail.
\<close>

type_synonym rng_state = "32 word stream"

definition rng_call :: "rng_state \<Rightarrow> 32 word \<times> rng_state" where
  "rng_call g = (shd g, stl g)"

text \<open>
  \<^verbatim>\<open>std::uniform_real_distribution<float>(a, b)\<close> applied to the generator: one output
  of the 32-bit generator is scaled into the unit interval \<open>[0, 1)\<close> and mapped affinely
  onto \<open>[a, b)\<close>, as the C++ standard specifies.
\<close>

definition canonical :: "32 word \<Rightarrow> real" where
  "canonical r = real (unat r) / 4294967296"

definition uniform_real :: "real \<Rightarrow> real \<Rightarrow> rng_state \<Rightarrow> real \<times> rng_state" where
  "uniform_real a b g = (a + (b - a) * canonical (shd g), stl g)"

text \<open>A \<^verbatim>\<open>COLORREF\<close> is \<^verbatim>\<open>0x00bbggrr\<close>; the macros extract one byte each.\<close>

type_synonym COLORREF = "32 word"

definition GetRValue :: "COLORREF \<Rightarrow> int" where
  "GetRValue c = uint (ucast c :: 8 word)"

definition GetGValue :: "COLORREF \<Rightarrow> int" where
  "GetGValue c = uint (ucast (drop_bit 8 c) :: 8 word)"

definition GetBValue :: "COLORREF \<Rightarrow> int" where
  "GetBValue c = uint (ucast (drop_bit 16 c) :: 8 word)"

text \<open>\<^verbatim>\<open>RGB(r, g, b)\<close> casts each argument to \<^verbatim>\<open>BYTE\<close> and packs the three bytes.\<close>

definition RGB :: "int \<Rightarrow> int \<Rightarrow> int \<Rightarrow> COLORREF" where
  "RGB r g b = ucast (word_of_int r :: 8 word)
                 OR push_bit 8 (ucast (word_of_int g :: 8 word))
                 OR push_bit 16 (ucast (word_of_int b :: 8 word))"

record RECT =
  rc_left :: int
  rc_top :: int
  rc_right :: int
  rc_bottom :: int

text \<open>The owned star collection, the generator and the drawable rectangle are common
  to the \<^verbatim>\<open>RenderWindow\<close> struct of all three programs.\<close>

record 'star RenderWindow =
  rc :: RECT
  stars :: "'star list"
  rng :: rng_state
  isPreview :: bool

text \<open>Process-wide configuration: \<^verbatim>\<open>g_starCount\<close> and \<^verbatim>\<open>g_color\<close> exist in all three
  programs.\<close>

record Config =
  g_starCount :: int
  g_color :: COLORREF

text \<open>\<^verbatim>\<open>std::vector::resize\<close> and \<^verbatim>\<open>reserve\<close> receive the \<^verbatim>\<open>int\<close> count converted
  to \<^verbatim>\<open>size_t\<close>: a negative count is a size beyond \<^verbatim>\<open>max_size()\<close> and throws.\<close>

datatype error = LengthError

subsection \<open>GDI variant: src/Starfield/Starfield.cpp\<close>

record Star_gdi =
  sx :: real
  sy :: real
  sz :: real
  speed :: real

record Config_gdi = Config +
  g_speed :: int

record RenderWindow_gdi = "Star_gdi RenderWindow" +
  backHdc :: bool

definition Z_MIN :: real where "Z_MIN = 2"
definition Z_MAX :: real where "Z_MAX = 33"
definition FOCAL :: real where "FOCAL = 9"
definition SIZE_SCALE :: real where "SIZE_SCALE = 1"
definition BUCKETS :: int where "BUCKETS = 6"

text \<open>The body of the loop of \<^verbatim>\<open>InitStars\<close> (lines 187-200): three unit samples, then
  one raw generator call for the speed jitter.\<close>

definition InitStars_gdi_body ::
    "('a Config_gdi_scheme) \<Rightarrow> int \<Rightarrow> int \<Rightarrow> rng_state \<Rightarrow> Star_gdi \<times> rng_state" where
  "InitStars_gdi_body cfg width height g0 =
     (let jitterMax = max 1 (c_div (g_speed cfg) 2 + 1);
          (fx, g1) = uniform_real 0 1 g0;
          (fy, g2) = uniform_real 0 1 g1;
          (fz, g3) = uniform_real 0 1 g2;
          (r, g4) = rng_call g3
      in (\<lparr> sx = (fx - 0.5) * real_of_int width * 2,
            sy = (fy - 0.5) * real_of_int height * 2,
            sz = fz * (Z_MAX - Z_MIN) + Z_MIN,
            speed = real_of_int (g_speed cfg) + real (unat r mod nat jitterMax) \<rparr>, g4))"

fun InitStars_gdi_loop ::
    "('a Config_gdi_scheme) \<Rightarrow> int \<Rightarrow> int \<Rightarrow> nat \<Rightarrow> rng_state \<Rightarrow> Star_gdi list \<times> rng_state" where
  "InitStars_gdi_loop cfg width height 0 g = ([], g)"
| "InitStars_gdi_loop cfg width height (Suc n) g =
     (let (s, g') = InitStars_gdi_body cfg width height g;
          (ss, g'') = InitStars_gdi_loop cfg width height n g'
      in (s # ss, g''))"

definition InitStars_gdi ::
    "('a Config_gdi_scheme) \<Rightarrow> RenderWindow_gdi \<Rightarrow> error + RenderWindow_gdi" where
  "InitStars_gdi cfg rw =
     (let r = rc rw;
          width = max 1 (rc_right r - rc_left r);
          height = max 1 (rc_bottom r - rc_top r)
      in if g_starCount cfg < 0 then Inl LengthError
         else (let (ss, g') = InitStars_gdi_loop cfg width height (nat (g_starCount cfg)) (rng rw)
               in Inr (rw\<lparr> stars := ss, rng := g' \<rparr>)))"

text \<open>\<^verbatim>\<open>RenderFrame\<close>, lines 227-239: advance the depth, respawn at or below \<open>Z_MIN\<close>.\<close>

definition RenderFrame_gdi_advance ::
    "('a Config_gdi_scheme) \<Rightarrow> int \<Rightarrow> int \<Rightarrow> real \<Rightarrow> Star_gdi \<Rightarrow> rng_state \<Rightarrow> Star_gdi \<times> rng_state" where
  "RenderFrame_gdi_advance cfg w h dt s g0 =
     (let z1 = sz s - speed s * dt * 0.5
      in if z1 \<le> Z_MIN then
           (let (fx, g1) = uniform_real 0 1 g0;
                (fy, g2) = uniform_real 0 1 g1;
                (fz, g3) = uniform_real 0 1 g2;
                jitterMax = max 1 (c_div (g_speed cfg) 2 + 1);
                (r, g4) = rng_call g3
            in (s\<lparr> sx := (fx - 0.5) * real_of_int w * 2,
                    sy := (fy - 0.5) * real_of_int h * 2,
                    sz := fz * (Z_MAX - Z_MIN) + Z_MIN,
                    speed := real_of_int (g_speed cfg) + real (unat r mod nat jitterMax) \<rparr>, g4))
         else (s\<lparr> sz := z1 \<rparr>, g0))"

text \<open>Lines 241-248: projection and pixel size.\<close>

definition project_gdi :: "int \<Rightarrow> int \<Rightarrow> Star_gdi \<Rightarrow> real \<times> real" where
  "project_gdi w h s =
     (let cx = real_of_int w * 0.5; cy = real_of_int h * 0.5
      in (cx + sx s * (FOCAL / sz s), cy + sy s * (FOCAL / sz s)))"

definition psz_gdi :: "Star_gdi \<Rightarrow> int" where
  "psz_gdi s =
     (let inv = Z_MIN / sz s;
          psz = ceilf (max 1 (SIZE_SCALE * inv))
      in if psz > 128 then 128 else psz)"

text \<open>Lines 250-258: intensity from depth and pulse, clamped, then the brush bucket.\<close>

definition pulse_gdi :: "real \<Rightarrow> real" where
  "pulse_gdi totalTime = 1 + 0.05 * sin (totalTime * 1.5)"

definition intensity_gdi :: "real \<Rightarrow> Star_gdi \<Rightarrow> int" where
  "intensity_gdi pulse s =
     (let t = (sz s - Z_MIN) / (Z_MAX - Z_MIN);
          depthIntensity = 1 - t;
          intensity = lroundf (100 + depthIntensity * 155 * pulse)
      in max 0 (min 255 intensity))"

definition bucket_gdi :: "int \<Rightarrow> int" where
  "bucket_gdi intensity =
     (let bucket = c_int (real_of_int intensity / (256 / real_of_int BUCKETS))
      in max 0 (min (BUCKETS - 1) bucket))"

text \<open>Lines 259-269: the brush of a bucket is created from the intensity of the first
  star of the frame that falls into the bucket.\<close>

definition brush_rgb_gdi :: "('a Config_gdi_scheme) \<Rightarrow> int \<Rightarrow> int \<Rightarrow> int \<times> int \<times> int" where
  "brush_rgb_gdi cfg intensity bucket =
     (let baseR = GetRValue (g_color cfg);
          baseG = GetGValue (g_color cfg);
          baseB = GetBValue (g_color cfg);
          br = c_div (baseR * intensity) 255;
          bg = c_div (baseG * intensity) 255;
          bb = c_div (baseB * intensity) 255;
          whiten = 0.5 + 0.5 * (real_of_int bucket / real_of_int (BUCKETS - 1))
      in (min 255 (lroundf (real_of_int br * whiten + 255 * (1 - whiten))),
          min 255 (lroundf (real_of_int bg * whiten + 255 * (1 - whiten))),
          min 255 (lroundf (real_of_int bb * whiten + 255 * (1 - whiten)))))"

definition CreateSolidBrush_gdi :: "('a Config_gdi_scheme) \<Rightarrow> int \<Rightarrow> int \<Rightarrow> COLORREF" where
  "CreateSolidBrush_gdi cfg intensity bucket =
     (case brush_rgb_gdi cfg intensity bucket of (br, bg, bb) \<Rightarrow> RGB br bg bb)"

text \<open>Line 271: the off-screen test.\<close>

definition offscreen_gdi :: "int \<Rightarrow> int \<Rightarrow> real \<Rightarrow> real \<Rightarrow> int \<Rightarrow> bool" where
  "offscreen_gdi w h px py psz =
     (px + real_of_int psz < 0 \<or> px - real_of_int psz > real_of_int w
      \<or> py + real_of_int psz < 0 \<or> py - real_of_int psz > real_of_int h)"

text \<open>A call of \<^verbatim>\<open>Ellipse\<close> on the back buffer with the brush selected before it
  (a NULL brush handle is \<open>None\<close>).\<close>

datatype draw_gdi = Ellipse int int int int "COLORREF option"

type_synonym brushes_gdi = "COLORREF option list"

text \<open>Lines 270-276: an off-screen star is skipped, any other star is drawn with the
  brush of its bucket.\<close>

definition RenderFrame_gdi_draw :: "int \<Rightarrow> int \<Rightarrow> Star_gdi \<Rightarrow> COLORREF option \<Rightarrow> draw_gdi list" where
  "RenderFrame_gdi_draw w h s brush =
     (let (px, py) = project_gdi w h s;
          psz = psz_gdi s
      in if offscreen_gdi w h px py psz then []
         else [Ellipse (floorf (px - real_of_int psz)) (floorf (py - real_of_int psz))
                 (ceilf (px + real_of_int psz + 1)) (ceilf (py + real_of_int psz + 1)) brush])"

text \<open>The loop over the stars (lines 225-277): the stars are updated in place, the brush
  cache and the generator are threaded through, the draw calls are collected.\<close>

fun RenderFrame_gdi_loop ::
    "('a Config_gdi_scheme) \<Rightarrow> int \<Rightarrow> int \<Rightarrow> real \<Rightarrow> real \<Rightarrow> Star_gdi list \<Rightarrow> brushes_gdi \<Rightarrow> rng_state
       \<Rightarrow> Star_gdi list \<times> draw_gdi list \<times> brushes_gdi \<times> rng_state" where
  "RenderFrame_gdi_loop cfg w h dt pulse [] brushes g = ([], [], brushes, g)"
| "RenderFrame_gdi_loop cfg w h dt pulse (s # rest) brushes g =
     (let (s1, g1) = RenderFrame_gdi_advance cfg w h dt s g;
          intensity = intensity_gdi pulse s1;
          bucket = bucket_gdi intensity;
          brushes1 = (if brushes ! nat bucket = None
                      then brushes[nat bucket := Some (CreateSolidBrush_gdi cfg intensity bucket)]
                      else brushes);
          drawn = RenderFrame_gdi_draw w h s1 (brushes1 ! nat bucket);
          (rest', draws, brushes2, g2) = RenderFrame_gdi_loop cfg w h dt pulse rest brushes1 g1
      in (s1 # rest', drawn @ draws, brushes2, g2))"

definition RenderFrame_gdi ::
    "('a Config_gdi_scheme) \<Rightarrow> RenderWindow_gdi \<Rightarrow> real \<Rightarrow> real \<Rightarrow> RenderWindow_gdi \<times> draw_gdi list" where
  "RenderFrame_gdi cfg rw dt totalTime =
     (if \<not> backHdc rw then (rw, [])
      else (let w = max 1 (rc_right (rc rw) - rc_left (rc rw));
                h = max 1 (rc_bottom (rc rw) - rc_top (rc rw));
                pulse = pulse_gdi totalTime;
                brushes = replicate (nat BUCKETS) None;
                (ss, draws, brushes', g') =
                   RenderFrame_gdi_loop cfg w h dt pulse (stars rw) brushes (rng rw)
            in (rw\<lparr> stars := ss, rng := g' \<rparr>, draws)))"

text \<open>The frames of the loop of \<^verbatim>\<open>RunFull\<close> (lines 418-436) for one window: each
  iteration adds the time step \<open>dt\<close> to \<^verbatim>\<open>total\<close> (here \<open>elapsed\<close>) and renders one frame.\<close>

fun RunFull_frames_gdi ::
    "('a Config_gdi_scheme) \<Rightarrow> RenderWindow_gdi \<Rightarrow> real \<Rightarrow> real list \<Rightarrow> RenderWindow_gdi" where
  "RunFull_frames_gdi cfg rw elapsed [] = rw"
| "RunFull_frames_gdi cfg rw elapsed (dt # dts) =
     RunFull_frames_gdi cfg (fst (RenderFrame_gdi cfg rw dt (elapsed + dt))) (elapsed + dt) dts"

subsection \<open>Direct2D variants: src/unnamed/part_000 and src/unnamed/part_001\<close>

record Star_d2d =
  tx :: real
  ty :: real
  tz :: real
  base :: real
  phase :: real

record Config_d2d = Config +
  g_speedPercent :: int
  g_twinklePercent :: int

text \<open>What the frame reads from the render target: \<^verbatim>\<open>GetSize()\<close> and \<^verbatim>\<open>GetDpi()\<close>.\<close>

record RenderTarget =
  size_width :: real
  size_height :: real
  dpiX :: real

record RenderWindow_d2d = "Star_d2d RenderWindow" +
  rt :: "RenderTarget option"

text \<open>\<^verbatim>\<open>InitStars\<close> is the same in both files (part_000 lines 124-138, part_001 lines
  139-150): five samples per star, in the order of the braced initializer.\<close>

definition InitStars_d2d_body :: "int \<Rightarrow> int \<Rightarrow> rng_state \<Rightarrow> Star_d2d \<times> rng_state" where
  "InitStars_d2d_body w h g0 =
     (let (x, g1) = uniform_real 0 (real_of_int w) g0;
          (y, g2) = uniform_real 0 (real_of_int h) g1;
          (z, g3) = uniform_real 0.2 1.0 g2;
          (b, g4) = uniform_real 0.6 1.0 g3;
          (ph, g5) = uniform_real 0 6.28318530718 g4
      in (\<lparr> tx = x, ty = y, tz = z, base = b, phase = ph \<rparr>, g5))"

fun InitStars_d2d_loop :: "int \<Rightarrow> int \<Rightarrow> nat \<Rightarrow> rng_state \<Rightarrow> Star_d2d list \<times> rng_state" where
  "InitStars_d2d_loop w h 0 g = ([], g)"
| "InitStars_d2d_loop w h (Suc n) g =
     (let (s, g') = InitStars_d2d_body w h g;
          (ss, g'') = InitStars_d2d_loop w h n g'
      in (s # ss, g''))"

definition InitStars_d2d ::
    "('a Config_d2d_scheme) \<Rightarrow> RenderWindow_d2d \<Rightarrow> error + RenderWindow_d2d" where
  "InitStars_d2d cfg rw =
     (let r = rc rw;
          w = max 1 (rc_right r - rc_left r);
          h = max 1 (rc_bottom r - rc_top r)
      in if g_starCount cfg < 0 then Inl LengthError
         else (let (ss, g') = InitStars_d2d_loop w h (nat (g_starCount cfg)) (rng rw)
               in Inr (rw\<lparr> stars := ss, rng := g' \<rparr>)))"

text \<open>The advance and respawn step is the same in both files (part_000 lines 159-170,
  part_001 lines 167-176); \<open>width\<close> and \<open>height\<close> are the size of the render target.\<close>

definition RenderFrame_d2d_advance ::
    "('a Config_d2d_scheme) \<Rightarrow> real \<Rightarrow> real \<Rightarrow> real \<Rightarrow> Star_d2d \<Rightarrow> rng_state \<Rightarrow> Star_d2d \<times> rng_state" where
  "RenderFrame_d2d_advance cfg width height dt s g0 =
     (let speed_scale = real_of_int (g_speedPercent cfg) / 100;
          z1 = tz s - 0.5 * speed_scale * dt
      in if z1 \<le> 0.05 then
           (let (x, g1) = uniform_real 0 width g0;
                (y, g2) = uniform_real 0 height g1;
                (z, g3) = uniform_real 0.5 1.0 g2;
                (b, g4) = uniform_real 0.6 1.0 g3;
                (ph, g5) = uniform_real 0 6.28318530718 g4
            in (s\<lparr> tx := x, ty := y, tz := z, base := b, phase := ph \<rparr>, g5))
         else (s\<lparr> tz := z1 \<rparr>, g0))"

definition project_d2d :: "real \<Rightarrow> real \<Rightarrow> Star_d2d \<Rightarrow> real \<times> real" where
  "project_d2d width height s =
     (let cx = width * 0.5; cy = height * 0.5
      in ((tx s - cx) / tz s + cx, (ty s - cy) / tz s + cy))"

text \<open>The twinkle and the colour (part_000 lines 172-175, part_001 lines 186-189).\<close>

definition twinkle_d2d :: "('a Config_d2d_scheme) \<Rightarrow> real \<Rightarrow> Star_d2d \<Rightarrow> real" where
  "twinkle_d2d cfg totalTime s =
     (let twinkle = real_of_int (g_twinklePercent cfg) / 100
      in base s + (sin (phase s + totalTime * 5) * 0.5 + 0.5) * twinkle)"

definition color_d2d :: "('a Config_d2d_scheme) \<Rightarrow> real \<Rightarrow> Star_d2d \<Rightarrow> real \<times> real \<times> real" where
  "color_d2d cfg totalTime s =
     (let tw = twinkle_d2d cfg totalTime s
      in (real_of_int (GetRValue (g_color cfg)) / 255 * tw,
          real_of_int (GetGValue (g_color cfg)) / 255 * tw,
          real_of_int (GetBValue (g_color cfg)) / 255 * tw))"

text \<open>A call of \<^verbatim>\<open>FillEllipse\<close>: centre, the two radii, and the brush colour set before.\<close>

datatype draw_d2d = FillEllipse real real real real "real \<times> real \<times> real"

text \<open>part_000 line 171: the size has a lower clamp only.\<close>

definition psz_p0 :: "Star_d2d \<Rightarrow> real" where
  "psz_p0 s = (let psz = 2.5 / tz s in if psz < 1 then 1 else psz)"

text \<open>part_001 lines 16-19 and 35-38: the \<^verbatim>\<open>clamp\<close> template and the size parameters.\<close>

definition clamp :: "'a::linorder \<Rightarrow> 'a \<Rightarrow> 'a \<Rightarrow> 'a" where
  "clamp val minVal maxVal = (if val < minVal then minVal else if val > maxVal then maxVal else val)"

definition g_starSizeMultiplier :: real where "g_starSizeMultiplier = 1"
definition g_starBase :: real where "g_starBase = 1"
definition g_starMin :: real where "g_starMin = 0.5"
definition g_starMax :: real where "g_starMax = 8"

text \<open>part_001 lines 179-184: the clamped size, then the DPI scaling of the clamped value.\<close>

definition psz_clamped_p1 :: "Star_d2d \<Rightarrow> real" where
  "psz_clamped_p1 s =
     clamp ((g_starBase / tz s) * (0.6 + 0.8 * base s) * g_starSizeMultiplier) g_starMin g_starMax"

definition psz_p1 :: "RenderTarget \<Rightarrow> Star_d2d \<Rightarrow> real" where
  "psz_p1 target s = (let dpiScale = dpiX target / 96 in psz_clamped_p1 s * dpiScale)"

fun RenderFrame_p0_loop ::
    "('a Config_d2d_scheme) \<Rightarrow> RenderTarget \<Rightarrow> real \<Rightarrow> real \<Rightarrow> Star_d2d list \<Rightarrow> rng_state
       \<Rightarrow> Star_d2d list \<times> draw_d2d list \<times> rng_state" where
  "RenderFrame_p0_loop cfg target dt totalTime [] g = ([], [], g)"
| "RenderFrame_p0_loop cfg target dt totalTime (s # rest) g =
     (let (s1, g1) = RenderFrame_d2d_advance cfg (size_width target) (size_height target) dt s g;
          (px, py) = project_d2d (size_width target) (size_height target) s1;
          psz = psz_p0 s1;
          drawn = FillEllipse px py psz psz (color_d2d cfg totalTime s1);
          (rest', draws, g2) = RenderFrame_p0_loop cfg target dt totalTime rest g1
      in (s1 # rest', drawn # draws, g2))"

definition RenderFrame_p0 ::
    "('a Config_d2d_scheme) \<Rightarrow> RenderWindow_d2d \<Rightarrow> real \<Rightarrow> real \<Rightarrow> RenderWindow_d2d \<times> draw_d2d list" where
  "RenderFrame_p0 cfg rw dt totalTime =
     (case rt rw of
        None \<Rightarrow> (rw, [])
      | Some target \<Rightarrow>
          (let (ss, draws, g') = RenderFrame_p0_loop cfg target dt totalTime (stars rw) (rng rw)
           in (rw\<lparr> stars := ss, rng := g' \<rparr>, draws)))"

fun RenderFrame_p1_loop ::
    "('a Config_d2d_scheme) \<Rightarrow> RenderTarget \<Rightarrow> real \<Rightarrow> real \<Rightarrow> Star_d2d list \<Rightarrow> rng_state
       \<Rightarrow> Star_d2d list \<times> draw_d2d list \<times> rng_state" where
  "RenderFrame_p1_loop cfg target dt totalTime [] g = ([], [], g)"
| "RenderFrame_p1_loop cfg target dt totalTime (s # rest) g =
     (let (s1, g1) = RenderFrame_d2d_advance cfg (size_width target) (size_height target) dt s g;
          (px, py) = project_d2d (size_width target) (size_height target) s1;
          psz = psz_p1 target s1;
          drawn = FillEllipse px py psz psz (color_d2d cfg totalTime s1);
          (rest', draws, g2) = RenderFrame_p1_loop cfg target dt totalTime rest g1
      in (s1 # rest', drawn # draws, g2))"

definition RenderFrame_p1 ::
    "('a Config_d2d_scheme) \<Rightarrow> RenderWindow_d2d \<Rightarrow> real \<Rightarrow> real \<Rightarrow> RenderWindow_d2d \<times> draw_d2d list" where
  "RenderFrame_p1 cfg rw dt totalTime =
     (case rt rw of
        None \<Rightarrow> (rw, [])
      | Some target \<Rightarrow>
          (let (ss, draws, g') = RenderFrame_p1_loop cfg target dt totalTime (stars rw) (rng rw)
           in (rw\<lparr> stars := ss, rng := g' \<rparr>, draws)))"

fun RunFull_frames_p0 ::
    "('a Config_d2d_scheme) \<Rightarrow> RenderWindow_d2d \<Rightarrow> real \<Rightarrow> real list \<Rightarrow> RenderWindow_d2d" where
  "RunFull_frames_p0 cfg rw elapsed [] = rw"
| "RunFull_frames_p0 cfg rw elapsed (dt # dts) =
     RunFull_frames_p0 cfg (fst (RenderFrame_p0 cfg rw dt (elapsed + dt))) (elapsed + dt) dts"

fun RunFull_frames_p1 ::
    "('a Config_d2d_scheme) \<Rightarrow> RenderWindow_d2d \<Rightarrow> real \<Rightarrow> real list \<Rightarrow> RenderWindow_d2d" where
  "RunFull_frames_p1 cfg rw elapsed [] = rw"
| "RunFull_frames_p1 cfg rw elapsed (dt # dts) =
     RunFull_frames_p1 cfg (fst (RenderFrame_p1 cfg rw dt (elapsed + dt))) (elapsed + dt) dts"

subsection \<open>Input filtering of the full-screen window procedures\<close>

datatype msg =
    WM_CREATE | WM_SIZE | WM_KEYDOWN | WM_LBUTTONDOWN | WM_RBUTTONDOWN | WM_MBUTTONDOWN
  | WM_XBUTTONDOWN | WM_MOUSEMOVE | WM_DESTROY | WM_OTHER

text \<open>The globals the window procedures read and write.  \<open>quit_posted\<close> records a call
  of \<^verbatim>\<open>PostQuitMessage(0)\<close>.  part_000 has no \<^verbatim>\<open>g_startMouse\<close> and no
  \<^verbatim>\<open>g_startMouseInit\<close>.\<close>

record Globals =
  g_running :: bool
  quit_posted :: bool
  g_perfFreq :: int
  g_startCounter :: int

record Globals_mouse = Globals +
  g_startMouse :: "int \<times> int"
  g_startMouseInit :: bool

text \<open>What one call of the window procedure obtains from the system:
  \<^verbatim>\<open>QueryPerformanceCounter\<close>, \<^verbatim>\<open>ForegroundIsOurWindow()\<close>, \<^verbatim>\<open>GetCursorPos\<close>, and
  whether \<^verbatim>\<open>GWLP_USERDATA\<close> holds a RenderWindow.\<close>

record Input_env =
  now_counter :: int
  foreground_ours :: bool
  cursor :: "int \<times> int"
  has_rw :: bool

definition g_inputDebounceSeconds_gdi :: real where "g_inputDebounceSeconds_gdi = 0.66"
definition g_inputDebounceSeconds_d2d :: real where "g_inputDebounceSeconds_d2d = 2.5"
definition g_mouseMoveThreshold :: int where "g_mouseMoveThreshold = 12"

definition seconds_since_start :: "Input_env \<Rightarrow> ('a Globals_scheme) \<Rightarrow> real" where
  "seconds_since_start env gl =
     real_of_int (now_counter env - g_startCounter gl) / real_of_int (g_perfFreq gl)"

text \<open>src/Starfield/Starfield.cpp lines 318-344: the shared case of the six input
  messages.\<close>

definition FullWndProc_gdi_input ::
    "Input_env \<Rightarrow> msg \<Rightarrow> ('a Globals_mouse_scheme) \<Rightarrow> ('a Globals_mouse_scheme)" where
  "FullWndProc_gdi_input env m gl =
     (let seconds = seconds_since_start env gl
      in if seconds < g_inputDebounceSeconds_gdi then gl
         else if \<not> foreground_ours env then gl
         else if m = WM_MOUSEMOVE then
           (let cur = cursor env
            in if \<not> g_startMouseInit gl
               then gl\<lparr> g_startMouse := cur, g_startMouseInit := True \<rparr>
               else (let dx = \<bar>fst cur - fst (g_startMouse gl)\<bar>;
                         dy = \<bar>snd cur - snd (g_startMouse gl)\<bar>
                     in if dx < g_mouseMoveThreshold \<and> dy < g_mouseMoveThreshold then gl
                        else gl\<lparr> g_running := False, quit_posted := True \<rparr>))
         else gl\<lparr> g_running := False, quit_posted := True \<rparr>)"

fun FullWndProc_gdi ::
    "Input_env \<Rightarrow> msg \<Rightarrow> ('a Globals_mouse_scheme) \<Rightarrow> ('a Globals_mouse_scheme)" where
  "FullWndProc_gdi env WM_CREATE gl = gl\<lparr> g_startMouseInit := False \<rparr>"
| "FullWndProc_gdi env WM_SIZE gl = (if has_rw env then gl\<lparr> g_startMouseInit := False \<rparr> else gl)"
| "FullWndProc_gdi env WM_DESTROY gl = gl"
| "FullWndProc_gdi env WM_OTHER gl = gl"
| "FullWndProc_gdi env m gl = FullWndProc_gdi_input env m gl"

text \<open>src/unnamed/part_001 lines 199-226: the same filter with the longer debounce.\<close>

definition FullWndProc_p1_input ::
    "Input_env \<Rightarrow> msg \<Rightarrow> ('a Globals_mouse_scheme) \<Rightarrow> ('a Globals_mouse_scheme)" where
  "FullWndProc_p1_input env m gl =
     (let seconds = seconds_since_start env gl
      in if seconds < g_inputDebounceSeconds_d2d then gl
         else if \<not> foreground_ours env then gl
         else if m = WM_MOUSEMOVE then
           (let cur = cursor env
            in if \<not> g_startMouseInit gl
               then gl\<lparr> g_startMouse := cur, g_startMouseInit := True \<rparr>
               else (let dx = \<bar>fst cur - fst (g_startMouse gl)\<bar>;
                         dy = \<bar>snd cur - snd (g_startMouse gl)\<bar>
                     in if dx < g_mouseMoveThreshold \<and> dy < g_mouseMoveThreshold then gl
                        else gl\<lparr> g_running := False, quit_posted := True \<rparr>))
         else gl\<lparr> g_running := False, quit_posted := True \<rparr>)"

fun FullWndProc_p1 ::
    "Input_env \<Rightarrow> msg \<Rightarrow> ('a Globals_mouse_scheme) \<Rightarrow> ('a Globals_mouse_scheme)" where
  "FullWndProc_p1 env WM_CREATE gl = gl\<lparr> g_startMouseInit := False \<rparr>"
| "FullWndProc_p1 env WM_SIZE gl = (if has_rw env then gl\<lparr> g_startMouseInit := False \<rparr> else gl)"
| "FullWndProc_p1 env WM_DESTROY gl = gl"
| "FullWndProc_p1 env WM_OTHER gl = gl"
| "FullWndProc_p1 env m gl = FullWndProc_p1_input env m gl"

text \<open>src/unnamed/part_000 lines 188-218: the debounce is the only filter; the procedure
  reads neither the foreground window nor the cursor.\<close>

definition FullWndProc_p0_input ::
    "Input_env \<Rightarrow> msg \<Rightarrow> ('a Globals_scheme) \<Rightarrow> ('a Globals_scheme)" where
  "FullWndProc_p0_input env m gl =
     (let seconds = seconds_since_start env gl
      in if seconds \<ge> g_inputDebounceSeconds_d2d
         then gl\<lparr> g_running := False, quit_posted := True \<rparr>
         else gl)"

fun FullWndProc_p0 :: "Input_env \<Rightarrow> msg \<Rightarrow> ('a Globals_scheme) \<Rightarrow> ('a Globals_scheme)" where
  "FullWndProc_p0 env WM_CREATE gl = gl"
| "FullWndProc_p0 env WM_SIZE gl = gl"
| "FullWndProc_p0 env WM_DESTROY gl = gl"
| "FullWndProc_p0 env WM_OTHER gl = gl"
| "FullWndProc_p0 env m gl = FullWndProc_p0_input env m gl"

subsection \<open>Confirming the settings dialog\<close>







subsection \<open>Concrete inputs\<close>

text \<open>A generator whose next outputs are \<open>2^30\<close>, \<open>2^31\<close>, \<open>0\<close>, \<open>3 * 2^30\<close> and then
  zeros: the unit samples \<open>1/4\<close>, \<open>1/2\<close>, \<open>0\<close>, \<open>3/4\<close>, \<open>0\<close>, ...\<close>

definition rng_example :: rng_state where
  "rng_example = [0x40000000, 0x80000000, 0, 0xC0000000] @- sconst 0"

definition rc_example :: RECT where
  "rc_example = \<lparr> rc_left = 0, rc_top = 0, rc_right = 1920, rc_bottom = 1080 \<rparr>"

definition cfg_gdi_example :: Config_gdi where
  "cfg_gdi_example = \<lparr> g_starCount = 2, g_color = RGB 255 255 255, g_speed = 60 \<rparr>"

definition rw_gdi_example :: RenderWindow_gdi where
  "rw_gdi_example = \<lparr> rc = rc_example, stars = [], rng = rng_example, isPreview = False,
      backHdc = True \<rparr>"

definition cfg_d2d_example :: Config_d2d where
  "cfg_d2d_example = \<lparr> g_starCount = 2, g_color = RGB 255 255 240, g_speedPercent = 60,
      g_twinklePercent = 30 \<rparr>"

definition rt_example :: RenderTarget where
  "rt_example = \<lparr> size_width = 1920, size_height = 1080, dpiX = 96 \<rparr>"

definition rw_d2d_example :: RenderWindow_d2d where
  "rw_d2d_example = \<lparr> rc = rc_example, stars = [], rng = rng_example, isPreview = False,
      rt = Some rt_example \<rparr>"

text \<open>A star of the GDI variant half a unit above \<open>Z_MIN\<close>, and a star of the Direct2D
  variants just above the near bound \<open>0.05\<close>.\<close>

definition star_gdi_example :: Star_gdi where
  "star_gdi_example = \<lparr> sx = 0, sy = 0, sz = 2.5, speed = 64 \<rparr>"

definition star_d2d_example :: Star_d2d where
  "star_d2d_example = \<lparr> tx = 960, ty = 540, tz = 53 / 1024, base = 0.75, phase = 0 \<rparr>"

text \<open>A bright star of the Direct2D variants: its base is inside the range \<open>[0.6, 1)\<close>
  that \<^verbatim>\<open>InitStars\<close> samples from.\<close>

definition star_bright_example :: Star_d2d where
  "star_bright_example = \<lparr> tx = 960, ty = 540, tz = 0.5, base = 15 / 16, phase = 0 \<rparr>"

subsection \<open>Vocabulary of the depth invariant\<close>









subsection \<open>Vocabulary of the input-gate property\<close>

text \<open>The messages that count as user input: key press, mouse button, mouse movement.\<close>

fun is_input :: "msg \<Rightarrow> bool" where
  "is_input WM_KEYDOWN = True"
| "is_input WM_LBUTTONDOWN = True"
| "is_input WM_RBUTTONDOWN = True"
| "is_input WM_MBUTTONDOWN = True"
| "is_input WM_XBUTTONDOWN = True"
| "is_input WM_MOUSEMOVE = True"
| "is_input m = False"

text \<open>The cursor is less than the threshold away from the recorded start position, on
  both axes.\<close>

definition below_threshold :: "Input_env \<Rightarrow> ('a Globals_mouse_scheme) \<Rightarrow> bool" where
  "below_threshold env gl =
     (\<bar>fst (cursor env) - fst (g_startMouse gl)\<bar> < g_mouseMoveThreshold
      \<and> \<bar>snd (cursor env) - snd (g_startMouse gl)\<bar> < g_mouseMoveThreshold)"

text \<open>Concrete inputs: a counter of 1000 ticks per second started at 0, the mouse recorded
  at (100, 100).\<close>

definition env_example :: "int \<Rightarrow> bool \<Rightarrow> int \<times> int \<Rightarrow> Input_env" where
  "env_example t fg cur = \<lparr> now_counter = t, foreground_ours = fg, cursor = cur, has_rw = True \<rparr>"

definition globals_example :: Globals_mouse where
  "globals_example = \<lparr> g_running = True, quit_posted = False, g_perfFreq = 1000,
     g_startCounter = 0, g_startMouse = (100, 100), g_startMouseInit = True \<rparr>"

definition globals_p0_example :: Globals where
  "globals_p0_example = \<lparr> g_running = True, quit_posted = False, g_perfFreq = 1000,
     g_startCounter = 0 \<rparr>"

subsection \<open>Vocabulary of the culling property\<close>

text \<open>The bounding box of a projected star, a square of half-width \<open>r\<close> around
  \<open>(px, py)\<close>, and the viewport \<open>[0, w] \<times> [0, h]\<close>, as sets of points of the plane.\<close>

definition bbox :: "real \<Rightarrow> real \<Rightarrow> real \<Rightarrow> (real \<times> real) set" where
  "bbox px py r = {(x, y). px - r \<le> x \<and> x \<le> px + r \<and> py - r \<le> y \<and> y \<le> py + r}"

definition viewport :: "real \<Rightarrow> real \<Rightarrow> (real \<times> real) set" where
  "viewport w h = {(x, y). 0 \<le> x \<and> x \<le> w \<and> 0 \<le> y \<and> y \<le> h}"

definition star_bbox_gdi :: "int \<Rightarrow> int \<Rightarrow> Star_gdi \<Rightarrow> (real \<times> real) set" where
  "star_bbox_gdi w h s =
     (case project_gdi w h s of (px, py) \<Rightarrow> bbox px py (real_of_int (psz_gdi s)))"

definition outside_viewport_gdi :: "int \<Rightarrow> int \<Rightarrow> Star_gdi \<Rightarrow> bool" where
  "outside_viewport_gdi w h s =
     (star_bbox_gdi w h s \<inter> viewport (real_of_int w) (real_of_int h) = {})"

text \<open>A window of the plain Direct2D variant with one star at the left edge, close to
  the viewer, and a window of the GDI variant with one star in the centre and one far to
  the right.\<close>

definition rw_offscreen_example :: RenderWindow_d2d where
  "rw_offscreen_example = \<lparr> rc = rc_example,
      stars = [\<lparr> tx = 0, ty = 540, tz = 83 / 640, base = 0.75, phase = 0 \<rparr>],
      rng = rng_example, isPreview = False, rt = Some rt_example \<rparr>"

definition rw_gdi_drawn_example :: RenderWindow_gdi where
  "rw_gdi_drawn_example = \<lparr> rc = rc_example,
      stars = [\<lparr> sx = 0, sy = 0, sz = 4, speed = 64 \<rparr>, \<lparr> sx = 1920, sy = 0, sz = 4, speed = 64 \<rparr>],
      rng = rng_example, isPreview = False, backHdc = True \<rparr>"

subsection \<open>The default settings\<close>





section \<open>Properties\<close>

subsection \<open>The generator and the unit samples\<close>


lemma canonical_numeral:
  "canonical 0 = 0" "canonical 0x40000000 = 1 / 4" "canonical 0x80000000 = 1 / 2"
  "canonical 0xC0000000 = 3 / 4"
  by (simp_all add: canonical_def)




lemma InitStars_gdi_loop_2:
  "InitStars_gdi_loop cfg w h 2 g = InitStars_gdi_loop cfg w h (Suc (Suc 0)) g"
  by (simp add: numeral_2_eq_2)

lemma InitStars_d2d_loop_2:
  "InitStars_d2d_loop w h 2 g = InitStars_d2d_loop w h (Suc (Suc 0)) g"
  by (simp add: numeral_2_eq_2)

text \<open>The pixel size of the GDI variant, for every star.\<close>

lemma psz_gdi_bounds: "1 \<le> psz_gdi s \<and> psz_gdi s \<le> 128"
proof -
  define c where "c = \<lceil>max 1 (SIZE_SCALE * (Z_MIN / sz s))\<rceil>"
  have "\<lceil>1::real\<rceil> \<le> c" unfolding c_def by (rule ceiling_mono) simp
  then have "1 \<le> c" by simp
  moreover have "psz_gdi s = (if c > 128 then 128 else c)"
    by (simp only: psz_gdi_def ceilf_def Let_def c_def)
  ultimately show ?thesis by simp
qed




subsection \<open>C1: the depth band\<close>






















































subsection \<open>C2: the projected size\<close>

lemma clamp_bounds: "lo \<le> hi \<Longrightarrow> lo \<le> clamp v lo hi \<and> clamp v lo hi \<le> hi"
  by (auto simp add: clamp_def)

lemma psz_clamped_p1_bounds: "g_starMin \<le> psz_clamped_p1 s \<and> psz_clamped_p1 s \<le> g_starMax"
  unfolding psz_clamped_p1_def by (rule clamp_bounds) (simp add: g_starMin_def g_starMax_def)

lemma psz_p0_eq: "psz_p0 s = max 1 (2.5 / tz s)"
  by (simp add: psz_p0_def Let_def max_def)

text \<open>
  C2 (amended).  For every star and every depth: the GDI variant's pixel size is in
  \<open>[1, 128]\<close>; part_001 clamps the size into \<open>[g_starMin, g_starMax] = [0.5, 8]\<close> (so its
  minimum is 0.5, not 1) and then multiplies the clamped value by the DPI scale
  \<open>dpiX / 96\<close>; part_000 has the lower bound 1 only: its size is \<open>max 1 (2.5 / z)\<close>, with
  no upper clamp.
\<close>

theorem projected_size_clamped:
  "(1 \<le> psz_gdi s \<and> psz_gdi s \<le> 128)
   \<and> (g_starMin \<le> psz_clamped_p1 t \<and> psz_clamped_p1 t \<le> g_starMax
      \<and> g_starMin = 0.5 \<and> g_starMax = 8
      \<and> psz_p1 target t = psz_clamped_p1 t * (dpiX target / 96))
   \<and> (1 \<le> psz_p0 t \<and> psz_p0 t = max 1 (2.5 / tz t))"
  using psz_gdi_bounds [of s] psz_clamped_p1_bounds [of t]
  by (simp add: psz_p0_eq psz_p1_def g_starMin_def g_starMax_def)

text \<open>The claim as stated fails: in part_001 a star at depth 4 gets the size 0.5, below 1;
  at 192 DPI a star at depth 1/16 gets the radius 16, above 8; in part_000 the same star
  gets the radius 40, and nothing bounds it as the depth shrinks.\<close>

theorem projected_size_counterexample:
  "psz_p1 rt_example \<lparr> tx = 960, ty = 540, tz = 4, base = 1, phase = 0 \<rparr> = 0.5
   \<and> psz_p1 (rt_example\<lparr> dpiX := 192 \<rparr>) \<lparr> tx = 960, ty = 540, tz = 0.0625, base = 0.75, phase = 0 \<rparr> = 16
   \<and> psz_p0 \<lparr> tx = 960, ty = 540, tz = 0.0625, base = 0.75, phase = 0 \<rparr> = 40"
  by (simp add: psz_p1_def psz_clamped_p1_def clamp_def psz_p0_def rt_example_def
        g_starBase_def g_starSizeMultiplier_def g_starMin_def g_starMax_def)

subsection \<open>C3: the colour channels\<close>

lemma byte_bounds: "0 \<le> uint (b :: 8 word) \<and> uint b \<le> 255"
  using uint_lt2p [of b] by simp

lemma GetValue_bounds:
  "0 \<le> GetRValue c \<and> GetRValue c \<le> 255"
  "0 \<le> GetGValue c \<and> GetGValue c \<le> 255"
  "0 \<le> GetBValue c \<and> GetBValue c \<le> 255"
  using byte_bounds by (simp_all add: GetRValue_def GetGValue_def GetBValue_def)

lemma intensity_gdi_bounds: "0 \<le> intensity_gdi pulse s \<and> intensity_gdi pulse s \<le> 255"
  by (simp add: intensity_gdi_def Let_def)

lemma bucket_gdi_bounds: "0 \<le> bucket_gdi i \<and> bucket_gdi i \<le> 5"
  by (simp add: bucket_gdi_def BUCKETS_def Let_def)

lemma lroundf_nonneg: "0 \<le> v \<Longrightarrow> 0 \<le> lroundf v"
  by (simp add: lroundf_def)

lemma c_div_nonneg: "0 \<le> a \<Longrightarrow> 0 < b \<Longrightarrow> c_div a b = a div b"
  by (simp add: c_div_def)

text \<open>One channel of the brush colour.\<close>

lemma channel_bounds:
  assumes "0 \<le> c" "0 \<le> i" "0 \<le> k" "k \<le> 5"
  shows "0 \<le> min 255 (lroundf (real_of_int (c_div (c * i) 255)
                * (0.5 + 0.5 * (real_of_int k / real_of_int (BUCKETS - 1)))
              + 255 * (1 - (0.5 + 0.5 * (real_of_int k / real_of_int (BUCKETS - 1))))))"
proof -
  let ?wh = "0.5 + 0.5 * (real_of_int k / real_of_int (BUCKETS - 1))"
  have w: "0 \<le> ?wh" "?wh \<le> 1" using assms by (simp_all add: BUCKETS_def)
  have "0 \<le> c * i" using assms by simp
  then have "0 \<le> c_div (c * i) 255" by (simp add: c_div_nonneg pos_imp_zdiv_nonneg_iff)
  then have "0 \<le> real_of_int (c_div (c * i) 255) * ?wh" using w by simp
  moreover have "0 \<le> 255 * (1 - ?wh)" using w by simp
  ultimately have "0 \<le> real_of_int (c_div (c * i) 255) * ?wh + 255 * (1 - ?wh)" by linarith
  then show ?thesis by (simp add: lroundf_nonneg)
qed

lemma brush_rgb_gdi_bounds:
  assumes "0 \<le> i" "0 \<le> k" "k \<le> 5"
  shows "case brush_rgb_gdi cfg i k of (br, bg, bb) \<Rightarrow>
           0 \<le> br \<and> br \<le> 255 \<and> 0 \<le> bg \<and> bg \<le> 255 \<and> 0 \<le> bb \<and> bb \<le> 255"
  using channel_bounds [OF _ assms, of "GetRValue (g_color cfg)"]
        channel_bounds [OF _ assms, of "GetGValue (g_color cfg)"]
        channel_bounds [OF _ assms, of "GetBValue (g_color cfg)"]
        GetValue_bounds [of "g_color cfg"]
  by (simp add: brush_rgb_gdi_def Let_def)


lemma twinkle_d2d_bounds:
  assumes "0 \<le> g_twinklePercent cfg"
  shows "base s \<le> twinkle_d2d cfg time s"
    and "twinkle_d2d cfg time s \<le> base s + real_of_int (g_twinklePercent cfg) / 100"
proof -
  let ?k = "sin (phase s + time * 5) * 0.5 + 0.5"
  let ?tw = "real_of_int (g_twinklePercent cfg) / 100"
  have k: "0 \<le> ?k" "?k \<le> 1"
    using sin_ge_minus_one [of "phase s + time * 5"] sin_le_one [of "phase s + time * 5"]
    by linarith+
  have tw: "0 \<le> ?tw" using assms by simp
  from k tw have "0 \<le> ?k * ?tw" by simp
  then show "base s \<le> twinkle_d2d cfg time s" by (simp add: twinkle_d2d_def Let_def)
  from k tw have "?k * ?tw \<le> 1 * ?tw" by (intro mult_right_mono) simp_all
  then show "twinkle_d2d cfg time s \<le> base s + ?tw" by (simp add: twinkle_d2d_def Let_def)
qed

lemma scaled_channel_bounds:
  assumes "0 \<le> v" "v \<le> 255" "0 \<le> (tw::real)"
  shows "0 \<le> real_of_int v / 255 * tw \<and> real_of_int v / 255 * tw \<le> tw"
proof -
  have q: "0 \<le> real_of_int v / 255" "real_of_int v / 255 \<le> 1" using assms by simp_all
  from q(1) assms(3) have "0 \<le> real_of_int v / 255 * tw" by (rule mult_nonneg_nonneg)
  moreover from q(2) assms(3) have "real_of_int v / 255 * tw \<le> 1 * tw" by (rule mult_right_mono)
  ultimately show ?thesis by simp
qed

lemma color_d2d_bounds:
  assumes "0 \<le> base s" "0 \<le> g_twinklePercent cfg"
  shows "case color_d2d cfg time s of (rr, gg, bb) \<Rightarrow>
           0 \<le> rr \<and> rr \<le> twinkle_d2d cfg time s
           \<and> 0 \<le> gg \<and> gg \<le> twinkle_d2d cfg time s
           \<and> 0 \<le> bb \<and> bb \<le> twinkle_d2d cfg time s"
proof -
  have tw: "0 \<le> twinkle_d2d cfg time s"
    using twinkle_d2d_bounds(1) [OF assms(2), of s time] assms(1) by simp
  show ?thesis
    using scaled_channel_bounds [OF _ _ tw, of "GetRValue (g_color cfg)"]
          scaled_channel_bounds [OF _ _ tw, of "GetGValue (g_color cfg)"]
          scaled_channel_bounds [OF _ _ tw, of "GetBValue (g_color cfg)"]
          GetValue_bounds [of "g_color cfg"]
    by (simp add: color_d2d_def Let_def)
qed

text \<open>
  C3 (amended).  In the GDI variant the clamped intensity and the three channels of the
  brush colour are integers in \<open>[0, 255]\<close>, for every star, pulse and configured colour.
  In the Direct2D variants nothing clamps the colour: for a non-negative base and twinkle
  percentage each channel is in \<open>[0, base + twinkle / 100]\<close>, which exceeds 1 for bright
  stars.
\<close>

theorem color_channels:
  fixes cg :: "'a Config_gdi_scheme" and cd :: "'b Config_d2d_scheme"
  shows
  "(0 \<le> intensity_gdi pulse s \<and> intensity_gdi pulse s \<le> 255)
   \<and> (case brush_rgb_gdi cg (intensity_gdi pulse s) (bucket_gdi (intensity_gdi pulse s)) of
        (br, bg, bb) \<Rightarrow> 0 \<le> br \<and> br \<le> 255 \<and> 0 \<le> bg \<and> bg \<le> 255 \<and> 0 \<le> bb \<and> bb \<le> 255)
   \<and> (0 \<le> base t \<and> 0 \<le> g_twinklePercent cd \<longrightarrow>
        (case color_d2d cd time t of
           (rr, gg, bb) \<Rightarrow>
             0 \<le> rr \<and> rr \<le> base t + real_of_int (g_twinklePercent cd) / 100
             \<and> 0 \<le> gg \<and> gg \<le> base t + real_of_int (g_twinklePercent cd) / 100
             \<and> 0 \<le> bb \<and> bb \<le> base t + real_of_int (g_twinklePercent cd) / 100))"
proof -
  have gdi: "case brush_rgb_gdi cg (intensity_gdi pulse s) (bucket_gdi (intensity_gdi pulse s)) of
        (br, bg, bb) \<Rightarrow> 0 \<le> br \<and> br \<le> 255 \<and> 0 \<le> bg \<and> bg \<le> 255 \<and> 0 \<le> bb \<and> bb \<le> 255"
    using intensity_gdi_bounds [of pulse s] bucket_gdi_bounds [of "intensity_gdi pulse s"]
    by (intro brush_rgb_gdi_bounds) simp_all
  have d2d: "case color_d2d cd time t of
           (rr, gg, bb) \<Rightarrow>
             0 \<le> rr \<and> rr \<le> base t + real_of_int (g_twinklePercent cd) / 100
             \<and> 0 \<le> gg \<and> gg \<le> base t + real_of_int (g_twinklePercent cd) / 100
             \<and> 0 \<le> bb \<and> bb \<le> base t + real_of_int (g_twinklePercent cd) / 100"
    if h: "0 \<le> base t \<and> 0 \<le> g_twinklePercent cd"
  proof -
    from h have h1: "0 \<le> base t" and h2: "0 \<le> g_twinklePercent cd" by simp_all
    show ?thesis
      using color_d2d_bounds [OF h1 h2, of time] twinkle_d2d_bounds(2) [OF h2, of time t]
      by (auto simp add: split_beta)
  qed
  show ?thesis
  proof (intro conjI impI)
    show "0 \<le> intensity_gdi pulse s" "intensity_gdi pulse s \<le> 255"
      using intensity_gdi_bounds [of pulse s] by simp_all
    show "case brush_rgb_gdi cg (intensity_gdi pulse s) (bucket_gdi (intensity_gdi pulse s)) of
        (br, bg, bb) \<Rightarrow> 0 \<le> br \<and> br \<le> 255 \<and> 0 \<le> bg \<and> bg \<le> 255 \<and> 0 \<le> bb \<and> bb \<le> 255"
      by (rule gdi)
  next
    assume "0 \<le> base t \<and> 0 \<le> g_twinklePercent cd"
    then show "case color_d2d cd time t of
           (rr, gg, bb) \<Rightarrow>
             0 \<le> rr \<and> rr \<le> base t + real_of_int (g_twinklePercent cd) / 100
             \<and> 0 \<le> gg \<and> gg \<le> base t + real_of_int (g_twinklePercent cd) / 100
             \<and> 0 \<le> bb \<and> bb \<le> base t + real_of_int (g_twinklePercent cd) / 100"
      by (rule d2d)
  qed
qed

theorem color_channels_witness:
  "(case color_d2d cfg_d2d_example (1 / 64) star_bright_example of
      (rr, gg, bb) \<Rightarrow> 0 \<le> rr \<and> rr \<le> 99 / 80 \<and> 0 \<le> gg \<and> gg \<le> 99 / 80 \<and> 0 \<le> bb \<and> bb \<le> 99 / 80)"
proof -
  have h: "0 \<le> base star_bright_example" "0 \<le> g_twinklePercent cfg_d2d_example"
    "base star_bright_example + real_of_int (g_twinklePercent cfg_d2d_example) / 100 = 99 / 80"
    by (simp_all add: star_bright_example_def cfg_d2d_example_def)
  from color_channels [of 1 star_gdi_example cfg_gdi_example star_bright_example cfg_d2d_example "1 / 64"] h
  show ?thesis by simp
qed

lemma GetRValue_example: "GetRValue (RGB 255 255 240) = 255"
  by (simp add: GetRValue_def RGB_def)

text \<open>The claim as stated fails on the Direct2D variants: with the default colour and
  the default twinkle of 30 percent, a star of base 15/16 has a red channel above 1 in the
  frame at \<open>totalTime = 1/64\<close>.\<close>

theorem color_d2d_counterexample:
  "1 < fst (color_d2d cfg_d2d_example (1 / 64) star_bright_example)"
proof -
  have "0 \<le> sin (5 / 64 :: real)"
    using pi_ge_two by (intro sin_ge_zero) simp_all
  moreover have "twinkle_d2d cfg_d2d_example (1 / 64) star_bright_example
                   = 87 / 80 + sin (5 / 64) * (3 / 20)"
    by (simp add: twinkle_d2d_def cfg_d2d_example_def star_bright_example_def algebra_simps)
  ultimately have "1 < twinkle_d2d cfg_d2d_example (1 / 64) star_bright_example"
    by linarith
  moreover have "fst (color_d2d cfg_d2d_example (1 / 64) star_bright_example)
                   = twinkle_d2d cfg_d2d_example (1 / 64) star_bright_example"
    using GetRValue_example by (simp add: color_d2d_def Let_def cfg_d2d_example_def)
  ultimately show ?thesis by simp
qed

subsection \<open>C4: respawn against InitStars\<close>






subsection \<open>C5: the input gate\<close>

text \<open>The loop of \<^verbatim>\<open>RunFull\<close> ends when \<^verbatim>\<open>g_running\<close> is false or when it retrieves the
  \<^verbatim>\<open>WM_QUIT\<close> that \<^verbatim>\<open>PostQuitMessage\<close> has posted: a message terminates nothing exactly
  when it leaves both \<open>g_running\<close> and \<open>quit_posted\<close> as they are.\<close>

lemma gdi_input_running:
  "g_running (FullWndProc_gdi_input env m gl) =
     (g_running gl \<and>
       (seconds_since_start env gl < g_inputDebounceSeconds_gdi \<or> \<not> foreground_ours env
        \<or> (m = WM_MOUSEMOVE \<and> (\<not> g_startMouseInit gl \<or> below_threshold env gl))))"
  by (auto simp add: FullWndProc_gdi_input_def below_threshold_def Let_def)

lemma gdi_input_quit:
  "quit_posted (FullWndProc_gdi_input env m gl) =
     (quit_posted gl \<or>
       \<not> (seconds_since_start env gl < g_inputDebounceSeconds_gdi \<or> \<not> foreground_ours env
          \<or> (m = WM_MOUSEMOVE \<and> (\<not> g_startMouseInit gl \<or> below_threshold env gl))))"
  by (auto simp add: FullWndProc_gdi_input_def below_threshold_def Let_def)

lemma p1_input_running:
  "g_running (FullWndProc_p1_input env m gl) =
     (g_running gl \<and>
       (seconds_since_start env gl < g_inputDebounceSeconds_d2d \<or> \<not> foreground_ours env
        \<or> (m = WM_MOUSEMOVE \<and> (\<not> g_startMouseInit gl \<or> below_threshold env gl))))"
  by (auto simp add: FullWndProc_p1_input_def below_threshold_def Let_def)

lemma p1_input_quit:
  "quit_posted (FullWndProc_p1_input env m gl) =
     (quit_posted gl \<or>
       \<not> (seconds_since_start env gl < g_inputDebounceSeconds_d2d \<or> \<not> foreground_ours env
          \<or> (m = WM_MOUSEMOVE \<and> (\<not> g_startMouseInit gl \<or> below_threshold env gl))))"
  by (auto simp add: FullWndProc_p1_input_def below_threshold_def Let_def)

lemma p0_input_running:
  "g_running (FullWndProc_p0_input env m gl) =
     (g_running gl \<and> seconds_since_start env gl < g_inputDebounceSeconds_d2d)"
  by (auto simp add: FullWndProc_p0_input_def Let_def)

lemma p0_input_quit:
  "quit_posted (FullWndProc_p0_input env m gl) =
     (quit_posted gl \<or> \<not> seconds_since_start env gl < g_inputDebounceSeconds_d2d)"
  by (auto simp add: FullWndProc_p0_input_def Let_def)

text \<open>When the loop keeps running after one message, and when a quit message has been
  posted after it, for every message of the datatype.\<close>

lemma gdi_running:
  "g_running (FullWndProc_gdi env m gl) =
     (g_running gl \<and>
       (\<not> is_input m \<or> seconds_since_start env gl < g_inputDebounceSeconds_gdi \<or> \<not> foreground_ours env
        \<or> (m = WM_MOUSEMOVE \<and> (\<not> g_startMouseInit gl \<or> below_threshold env gl))))"
  by (cases m) (simp_all add: gdi_input_running)

lemma gdi_quit:
  "quit_posted (FullWndProc_gdi env m gl) =
     (quit_posted gl \<or>
       \<not> (\<not> is_input m \<or> seconds_since_start env gl < g_inputDebounceSeconds_gdi \<or> \<not> foreground_ours env
          \<or> (m = WM_MOUSEMOVE \<and> (\<not> g_startMouseInit gl \<or> below_threshold env gl))))"
  by (cases m) (simp_all add: gdi_input_quit)

lemma p1_running:
  "g_running (FullWndProc_p1 env m gl) =
     (g_running gl \<and>
       (\<not> is_input m \<or> seconds_since_start env gl < g_inputDebounceSeconds_d2d \<or> \<not> foreground_ours env
        \<or> (m = WM_MOUSEMOVE \<and> (\<not> g_startMouseInit gl \<or> below_threshold env gl))))"
  by (cases m) (simp_all add: p1_input_running)

lemma p1_quit:
  "quit_posted (FullWndProc_p1 env m gl) =
     (quit_posted gl \<or>
       \<not> (\<not> is_input m \<or> seconds_since_start env gl < g_inputDebounceSeconds_d2d \<or> \<not> foreground_ours env
          \<or> (m = WM_MOUSEMOVE \<and> (\<not> g_startMouseInit gl \<or> below_threshold env gl))))"
  by (cases m) (simp_all add: p1_input_quit)

lemma p0_running:
  "g_running (FullWndProc_p0 env m gl) =
     (g_running gl \<and> (\<not> is_input m \<or> seconds_since_start env gl < g_inputDebounceSeconds_d2d))"
  by (cases m) (simp_all add: p0_input_running)

lemma p0_quit:
  "quit_posted (FullWndProc_p0 env m gl) =
     (quit_posted gl \<or> \<not> (\<not> is_input m \<or> seconds_since_start env gl < g_inputDebounceSeconds_d2d))"
  by (cases m) (simp_all add: p0_input_quit)

lemma example_simps:
  "seconds_since_start (env_example t fg cur) globals_example = real_of_int t / 1000"
  "seconds_since_start (env_example t fg cur) globals_p0_example = real_of_int t / 1000"
  "foreground_ours (env_example t fg cur) = fg"
  "below_threshold (env_example t fg (x, y)) globals_example = (\<bar>x - 100\<bar> < 12 \<and> \<bar>y - 100\<bar> < 12)"
  "g_startMouseInit globals_example" "g_running globals_example" "g_running globals_p0_example"
  "\<not> quit_posted globals_example" "\<not> quit_posted globals_p0_example"
  by (simp_all add: seconds_since_start_def env_example_def globals_example_def globals_p0_example_def
      below_threshold_def g_mouseMoveThreshold_def)

text \<open>
  C5 (amended).  In the GDI variant and in part_001 a message never terminates the render
  loop (it leaves \<^verbatim>\<open>g_running\<close> as it is and posts no quit message) when it arrives inside
  the debounce window (0.66 s, 2.5 s), or while the foreground window is not ours, or when
  it is a mouse move less than 12 pixels away (on both axes) from the recorded start
  position; a mouse move of 12 pixels or more on one axis, after the debounce window, with
  the foreground window ours and a start position recorded, terminates it (it clears
  \<^verbatim>\<open>g_running\<close> and posts the quit message).  In part_000 the debounce window (2.5 s) is
  the only filter: inside it no message terminates the loop, after it every input message
  does.
\<close>

theorem input_gate:
  fixes gl :: "'a Globals_mouse_scheme" and gl0 :: "'b Globals_scheme"
  shows
  "(seconds_since_start env gl < g_inputDebounceSeconds_gdi \<or> \<not> foreground_ours env
      \<or> (m = WM_MOUSEMOVE \<and> g_startMouseInit gl \<and> below_threshold env gl)
     \<longrightarrow> g_running (FullWndProc_gdi env m gl) = g_running gl
         \<and> quit_posted (FullWndProc_gdi env m gl) = quit_posted gl)
   \<and> (g_inputDebounceSeconds_gdi \<le> seconds_since_start env gl \<and> foreground_ours env
       \<and> g_startMouseInit gl \<and> \<not> below_threshold env gl
     \<longrightarrow> \<not> g_running (FullWndProc_gdi env WM_MOUSEMOVE gl)
         \<and> quit_posted (FullWndProc_gdi env WM_MOUSEMOVE gl))
   \<and> (seconds_since_start env gl < g_inputDebounceSeconds_d2d \<or> \<not> foreground_ours env
      \<or> (m = WM_MOUSEMOVE \<and> g_startMouseInit gl \<and> below_threshold env gl)
     \<longrightarrow> g_running (FullWndProc_p1 env m gl) = g_running gl
         \<and> quit_posted (FullWndProc_p1 env m gl) = quit_posted gl)
   \<and> (g_inputDebounceSeconds_d2d \<le> seconds_since_start env gl \<and> foreground_ours env
       \<and> g_startMouseInit gl \<and> \<not> below_threshold env gl
     \<longrightarrow> \<not> g_running (FullWndProc_p1 env WM_MOUSEMOVE gl)
         \<and> quit_posted (FullWndProc_p1 env WM_MOUSEMOVE gl))
   \<and> (seconds_since_start env gl0 < g_inputDebounceSeconds_d2d
     \<longrightarrow> g_running (FullWndProc_p0 env m gl0) = g_running gl0
         \<and> quit_posted (FullWndProc_p0 env m gl0) = quit_posted gl0)
   \<and> (g_inputDebounceSeconds_d2d \<le> seconds_since_start env gl0 \<and> is_input m
     \<longrightarrow> \<not> g_running (FullWndProc_p0 env m gl0)
         \<and> quit_posted (FullWndProc_p0 env m gl0))"
  by (auto simp add: gdi_running p1_running p0_running gdi_quit p1_quit p0_quit
        gdi_input_running p1_input_running p0_input_running
        gdi_input_quit p1_input_quit p0_input_quit)

text \<open>The scenario of the specification: 5 pixels at 0.1 s, 20 pixels at 3 s without the
  focus, 5 pixels at 3 s, and 20 pixels at 3 s with the focus.\<close>

theorem input_gate_witness:
  "g_running (FullWndProc_gdi (env_example 100 True (105, 100)) WM_MOUSEMOVE globals_example)
   \<and> \<not> quit_posted (FullWndProc_gdi (env_example 100 True (105, 100)) WM_MOUSEMOVE globals_example)
   \<and> g_running (FullWndProc_gdi (env_example 3000 False (120, 100)) WM_MOUSEMOVE globals_example)
   \<and> \<not> quit_posted (FullWndProc_gdi (env_example 3000 False (120, 100)) WM_MOUSEMOVE globals_example)
   \<and> g_running (FullWndProc_gdi (env_example 3000 True (105, 100)) WM_MOUSEMOVE globals_example)
   \<and> \<not> quit_posted (FullWndProc_gdi (env_example 3000 True (105, 100)) WM_MOUSEMOVE globals_example)
   \<and> \<not> g_running (FullWndProc_gdi (env_example 3000 True (120, 100)) WM_MOUSEMOVE globals_example)
   \<and> quit_posted (FullWndProc_gdi (env_example 3000 True (120, 100)) WM_MOUSEMOVE globals_example)
   \<and> g_running (FullWndProc_p1 (env_example 3000 True (105, 100)) WM_MOUSEMOVE globals_example)
   \<and> \<not> quit_posted (FullWndProc_p1 (env_example 3000 True (105, 100)) WM_MOUSEMOVE globals_example)
   \<and> \<not> g_running (FullWndProc_p1 (env_example 3000 True (120, 100)) WM_MOUSEMOVE globals_example)
   \<and> quit_posted (FullWndProc_p1 (env_example 3000 True (120, 100)) WM_MOUSEMOVE globals_example)
   \<and> g_running (FullWndProc_p0 (env_example 100 True (105, 100)) WM_MOUSEMOVE globals_p0_example)
   \<and> \<not> quit_posted (FullWndProc_p0 (env_example 100 True (105, 100)) WM_MOUSEMOVE globals_p0_example)
   \<and> \<not> g_running (FullWndProc_p0 (env_example 3000 True (105, 100)) WM_MOUSEMOVE globals_p0_example)
   \<and> quit_posted (FullWndProc_p0 (env_example 3000 True (105, 100)) WM_MOUSEMOVE globals_p0_example)"
  using input_gate [of "env_example 100 True (105, 100)" globals_example WM_MOUSEMOVE globals_p0_example]
        input_gate [of "env_example 3000 False (120, 100)" globals_example WM_MOUSEMOVE globals_p0_example]
        input_gate [of "env_example 3000 True (105, 100)" globals_example WM_MOUSEMOVE globals_p0_example]
        input_gate [of "env_example 3000 True (120, 100)" globals_example WM_MOUSEMOVE globals_p0_example]
  by (simp add: example_simps g_inputDebounceSeconds_gdi_def g_inputDebounceSeconds_d2d_def)

text \<open>The claim as stated fails on part_000: three seconds after the start, a mouse move
  that has not left the start position, received while another process owns the
  foreground window, ends the loop: it clears \<^verbatim>\<open>g_running\<close> and posts the quit message.\<close>

theorem input_gate_p0_counterexample:
  "\<not> g_running (FullWndProc_p0 (env_example 3000 False (100, 100)) WM_MOUSEMOVE globals_p0_example)
   \<and> quit_posted (FullWndProc_p0 (env_example 3000 False (100, 100)) WM_MOUSEMOVE globals_p0_example)"
  by (simp add: FullWndProc_p0_input_def example_simps g_inputDebounceSeconds_d2d_def)

subsection \<open>C6: the population is constant\<close>

lemma InitStars_gdi_loop_length: "length (fst (InitStars_gdi_loop cfg w h n g)) = n"
  by (induction n arbitrary: g) (simp_all add: split_beta Let_def)

lemma InitStars_d2d_loop_length: "length (fst (InitStars_d2d_loop w h n g)) = n"
  by (induction n arbitrary: g) (simp_all add: split_beta Let_def)

lemma InitStars_gdi_count:
  "0 \<le> g_starCount cfg \<Longrightarrow>
     \<exists>rw'. InitStars_gdi cfg rw = Inr rw' \<and> int (length (stars rw')) = g_starCount cfg"
  by (simp add: InitStars_gdi_def Let_def split_beta InitStars_gdi_loop_length)

lemma InitStars_d2d_count:
  "0 \<le> g_starCount cfg \<Longrightarrow>
     \<exists>rw'. InitStars_d2d cfg rw = Inr rw' \<and> int (length (stars rw')) = g_starCount cfg"
  by (simp add: InitStars_d2d_def Let_def split_beta InitStars_d2d_loop_length)

lemma RenderFrame_gdi_loop_length:
  "length (fst (RenderFrame_gdi_loop cfg w h dt pulse ss brushes g)) = length ss"
  by (induction ss arbitrary: brushes g) (simp_all add: split_beta Let_def)

lemma RenderFrame_p0_loop_length:
  "length (fst (RenderFrame_p0_loop cfg target dt t ss g)) = length ss"
  by (induction ss arbitrary: g) (simp_all add: split_beta Let_def)

lemma RenderFrame_p1_loop_length:
  "length (fst (RenderFrame_p1_loop cfg target dt t ss g)) = length ss"
  by (induction ss arbitrary: g) (simp_all add: split_beta Let_def)

lemma RenderFrame_gdi_length:
  "length (stars (fst (RenderFrame_gdi cfg rw dt t))) = length (stars rw)"
  by (simp add: RenderFrame_gdi_def Let_def split_beta RenderFrame_gdi_loop_length)

lemma RenderFrame_p0_length:
  "length (stars (fst (RenderFrame_p0 cfg rw dt t))) = length (stars rw)"
  by (simp add: RenderFrame_p0_def Let_def split_beta RenderFrame_p0_loop_length split: option.split)

lemma RenderFrame_p1_length:
  "length (stars (fst (RenderFrame_p1 cfg rw dt t))) = length (stars rw)"
  by (simp add: RenderFrame_p1_def Let_def split_beta RenderFrame_p1_loop_length split: option.split)

lemma RunFull_frames_gdi_length:
  "length (stars (RunFull_frames_gdi cfg rw el dts)) = length (stars rw)"
  by (induction dts arbitrary: rw el) (simp_all add: RenderFrame_gdi_length)

lemma RunFull_frames_p0_length:
  "length (stars (RunFull_frames_p0 cfg rw el dts)) = length (stars rw)"
  by (induction dts arbitrary: rw el) (simp_all add: RenderFrame_p0_length)

lemma RunFull_frames_p1_length:
  "length (stars (RunFull_frames_p1 cfg rw el dts)) = length (stars rw)"
  by (induction dts arbitrary: rw el) (simp_all add: RenderFrame_p1_length)

text \<open>
  C6.  \<^verbatim>\<open>InitStars\<close> with a non-negative configured count succeeds and leaves exactly that
  many stars; a call of \<^verbatim>\<open>RenderFrame\<close>, and any sequence of frames of the render loop,
  with any time steps, leaves the number of stars as it is.
\<close>

theorem star_count_constant:
  fixes cg :: "'a Config_gdi_scheme" and cd :: "'b Config_d2d_scheme"
  shows
  "(0 \<le> g_starCount cg \<longrightarrow>
      (\<exists>rw'. InitStars_gdi cg rwg = Inr rw' \<and> int (length (stars rw')) = g_starCount cg))
   \<and> length (stars (fst (RenderFrame_gdi cg rwg dt t))) = length (stars rwg)
   \<and> length (stars (RunFull_frames_gdi cg rwg el dts)) = length (stars rwg)
   \<and> (0 \<le> g_starCount cd \<longrightarrow>
      (\<exists>rw'. InitStars_d2d cd rwd = Inr rw' \<and> int (length (stars rw')) = g_starCount cd))
   \<and> length (stars (fst (RenderFrame_p0 cd rwd dt t))) = length (stars rwd)
   \<and> length (stars (RunFull_frames_p0 cd rwd el dts)) = length (stars rwd)
   \<and> length (stars (fst (RenderFrame_p1 cd rwd dt t))) = length (stars rwd)
   \<and> length (stars (RunFull_frames_p1 cd rwd el dts)) = length (stars rwd)"
  using InitStars_gdi_count [of cg rwg] InitStars_d2d_count [of cd rwd]
  by (simp add: RenderFrame_gdi_length RenderFrame_p0_length RenderFrame_p1_length
        RunFull_frames_gdi_length RunFull_frames_p0_length RunFull_frames_p1_length)

theorem star_count_constant_witness:
  "(\<exists>rw'. InitStars_gdi cfg_gdi_example rw_gdi_example = Inr rw' \<and> length (stars rw') = 2
       \<and> length (stars (RunFull_frames_gdi cfg_gdi_example rw' 0 [1 / 64, 1 / 64, 1 / 64])) = 2)
   \<and> (\<exists>rw'. InitStars_d2d cfg_d2d_example rw_d2d_example = Inr rw' \<and> length (stars rw') = 2
       \<and> length (stars (RunFull_frames_p0 cfg_d2d_example rw' 0 [1 / 64, 1 / 64, 1 / 64])) = 2
       \<and> length (stars (RunFull_frames_p1 cfg_d2d_example rw' 0 [1 / 64, 1 / 64, 1 / 64])) = 2)"
proof -
  have g: "0 \<le> g_starCount cfg_gdi_example" "g_starCount cfg_gdi_example = 2"
    by (simp_all add: cfg_gdi_example_def)
  have d: "0 \<le> g_starCount cfg_d2d_example" "g_starCount cfg_d2d_example = 2"
    by (simp_all add: cfg_d2d_example_def)
  from star_count_constant [of cfg_gdi_example rw_gdi_example 0 0 0 "[]" cfg_d2d_example rw_d2d_example] g d
  obtain rg rd where
    rg: "InitStars_gdi cfg_gdi_example rw_gdi_example = Inr rg" "length (stars rg) = 2"
    and rd: "InitStars_d2d cfg_d2d_example rw_d2d_example = Inr rd" "length (stars rd) = 2"
    by auto
  from star_count_constant [of cfg_gdi_example rg 0 0 0 "[1 / 64, 1 / 64, 1 / 64]" cfg_d2d_example rd] rg rd
  show ?thesis by simp
qed

subsection \<open>C7: off-screen stars\<close>

lemma bbox_viewport_disjoint_iff:
  assumes "0 \<le> r" "0 \<le> w" "0 \<le> h"
  shows "(bbox px py r \<inter> viewport w h = {})
           = (px + r < 0 \<or> px - r > w \<or> py + r < 0 \<or> py - r > h)"
proof
  assume disj: "bbox px py r \<inter> viewport w h = {}"
  show "px + r < 0 \<or> px - r > w \<or> py + r < 0 \<or> py - r > h"
  proof (rule ccontr)
    assume "\<not> ?thesis"
    then have n: "0 \<le> px + r" "px - r \<le> w" "0 \<le> py + r" "py - r \<le> h" by auto
    let ?p = "(max (px - r) 0, max (py - r) 0)"
    from n assms have "?p \<in> bbox px py r" by (simp add: bbox_def)
    moreover from n assms have "?p \<in> viewport w h" by (simp add: viewport_def)
    ultimately show False using disj by blast
  qed
next
  assume "px + r < 0 \<or> px - r > w \<or> py + r < 0 \<or> py - r > h"
  then show "bbox px py r \<inter> viewport w h = {}"
    by (auto simp add: bbox_def viewport_def)
qed

lemma outside_viewport_gdi_iff:
  assumes "0 \<le> w" "0 \<le> h"
  shows "outside_viewport_gdi w h s
           = offscreen_gdi w h (fst (project_gdi w h s)) (snd (project_gdi w h s)) (psz_gdi s)"
proof -
  have "0 \<le> real_of_int (psz_gdi s)" using psz_gdi_bounds [of s] by simp
  with assms show ?thesis
    by (simp add: outside_viewport_gdi_def star_bbox_gdi_def split_beta offscreen_gdi_def
          bbox_viewport_disjoint_iff)
qed

lemma RenderFrame_gdi_draw_length:
  assumes "0 \<le> w" "0 \<le> h"
  shows "length (RenderFrame_gdi_draw w h s b) = (if outside_viewport_gdi w h s then 0 else 1)"
  using outside_viewport_gdi_iff [OF assms, of s]
  by (simp add: RenderFrame_gdi_draw_def split_beta Let_def)

lemma RenderFrame_gdi_loop_draws:
  assumes "0 \<le> w" "0 \<le> h"
  shows "length (fst (snd (RenderFrame_gdi_loop cfg w h dt pulse ss brushes g)))
           = length (filter (\<lambda>s. \<not> outside_viewport_gdi w h s)
               (fst (RenderFrame_gdi_loop cfg w h dt pulse ss brushes g)))"
  by (induction ss arbitrary: brushes g)
     (simp_all add: split_beta Let_def RenderFrame_gdi_draw_length [OF assms])

lemma RenderFrame_gdi_draws:
  "backHdc rw \<Longrightarrow>
     length (snd (RenderFrame_gdi cfg rw dt t))
       = length (filter (\<lambda>s. \<not> outside_viewport_gdi (max 1 (rc_right (rc rw) - rc_left (rc rw)))
                                (max 1 (rc_bottom (rc rw) - rc_top (rc rw))) s)
           (stars (fst (RenderFrame_gdi cfg rw dt t))))"
  using RenderFrame_gdi_loop_draws [of "max 1 (rc_right (rc rw) - rc_left (rc rw))"
      "max 1 (rc_bottom (rc rw) - rc_top (rc rw))" cfg dt "pulse_gdi t" "stars rw"
      "replicate (nat BUCKETS) None" "rng rw"]
  by (simp add: RenderFrame_gdi_def Let_def split_beta)

lemma RenderFrame_p0_loop_draws:
  "length (fst (snd (RenderFrame_p0_loop cfg target dt t ss g))) = length ss"
  by (induction ss arbitrary: g) (simp_all add: split_beta Let_def)

lemma RenderFrame_p1_loop_draws:
  "length (fst (snd (RenderFrame_p1_loop cfg target dt t ss g))) = length ss"
  by (induction ss arbitrary: g) (simp_all add: split_beta Let_def)

lemma RenderFrame_p0_draws:
  "rt rw \<noteq> None \<Longrightarrow> length (snd (RenderFrame_p0 cfg rw dt t)) = length (stars rw)"
  by (auto simp add: RenderFrame_p0_def Let_def split_beta RenderFrame_p0_loop_draws)

lemma RenderFrame_p1_draws:
  "rt rw \<noteq> None \<Longrightarrow> length (snd (RenderFrame_p1 cfg rw dt t)) = length (stars rw)"
  by (auto simp add: RenderFrame_p1_def Let_def split_beta RenderFrame_p1_loop_draws)

text \<open>
  C7 (amended).  In the GDI variant a star whose projected bounding box has no point in
  common with the viewport issues no draw call, and a frame issues exactly one
  \<^verbatim>\<open>Ellipse\<close> per star that is not outside.  The Direct2D variants have no culling:
  with a render target, a frame issues one \<^verbatim>\<open>FillEllipse\<close> per star, wherever it
  projects.
\<close>

theorem offscreen_culling:
  fixes cg :: "'a Config_gdi_scheme" and cd :: "'b Config_d2d_scheme"
  shows
  "(0 \<le> w \<and> 0 \<le> h \<and> outside_viewport_gdi w h s \<longrightarrow> RenderFrame_gdi_draw w h s b = [])
   \<and> (backHdc rwg \<longrightarrow>
        length (snd (RenderFrame_gdi cg rwg dt t))
          = length (filter (\<lambda>s. \<not> outside_viewport_gdi (max 1 (rc_right (rc rwg) - rc_left (rc rwg)))
                                   (max 1 (rc_bottom (rc rwg) - rc_top (rc rwg))) s)
              (stars (fst (RenderFrame_gdi cg rwg dt t)))))
   \<and> (rt rwd \<noteq> None \<longrightarrow>
        length (snd (RenderFrame_p0 cd rwd dt t)) = length (stars rwd)
        \<and> length (snd (RenderFrame_p1 cd rwd dt t)) = length (stars rwd))"
proof -
  have "0 \<le> w \<and> 0 \<le> h \<and> outside_viewport_gdi w h s \<longrightarrow> RenderFrame_gdi_draw w h s b = []"
    using RenderFrame_gdi_draw_length [of w h s b] by auto
  then show ?thesis
    by (simp add: RenderFrame_gdi_draws RenderFrame_p0_draws RenderFrame_p1_draws)
qed


lemma offscreen_star_example:
  "outside_viewport_gdi 1920 1080 \<lparr> sx = 1920, sy = 0, sz = 3.5, speed = 64 \<rparr>"
proof -
  have "psz_gdi \<lparr> sx = 1920, sy = 0, sz = 3.5, speed = 64 \<rparr> = 1"
    by (simp add: psz_gdi_def ceilf_def SIZE_SCALE_def Z_MIN_def)
  then show ?thesis
    by (simp add: outside_viewport_gdi_iff offscreen_gdi_def project_gdi_def FOCAL_def)
qed

theorem offscreen_culling_witness:
  "RenderFrame_gdi_draw 1920 1080 \<lparr> sx = 1920, sy = 0, sz = 3.5, speed = 64 \<rparr> None = []
   \<and> length (snd (RenderFrame_gdi cfg_gdi_example rw_gdi_drawn_example (1 / 64) (1 / 64)))
      = length (filter (\<lambda>s. \<not> outside_viewport_gdi 1920 1080 s)
          (stars (fst (RenderFrame_gdi cfg_gdi_example rw_gdi_drawn_example (1 / 64) (1 / 64)))))
   \<and> length (snd (RenderFrame_p0 cfg_d2d_example rw_offscreen_example (1 / 64) (1 / 64))) = 1
   \<and> length (snd (RenderFrame_p1 cfg_d2d_example rw_offscreen_example (1 / 64) (1 / 64))) = 1"
proof -
  have rects: "max 1 (rc_right (rc rw_gdi_drawn_example) - rc_left (rc rw_gdi_drawn_example)) = 1920"
    "max 1 (rc_bottom (rc rw_gdi_drawn_example) - rc_top (rc rw_gdi_drawn_example)) = 1080"
    by (simp_all add: rw_gdi_drawn_example_def rc_example_def)
  have hs: "backHdc rw_gdi_drawn_example" "rt rw_offscreen_example \<noteq> None"
    "length (stars rw_offscreen_example) = 1"
    by (simp_all add: rw_gdi_drawn_example_def rw_offscreen_example_def)
  from offscreen_culling [of 1920 1080 "\<lparr> sx = 1920, sy = 0, sz = 3.5, speed = 64 \<rparr>" None
         rw_gdi_drawn_example cfg_gdi_example "1 / 64" "1 / 64" rw_offscreen_example cfg_d2d_example]
       offscreen_star_example hs
  show ?thesis by (simp add: rects)
qed

lemma RenderFrame_p0_offscreen_example:
  "snd (RenderFrame_p0 cfg_d2d_example rw_offscreen_example (1 / 64) (1 / 64))
     = [FillEllipse (- 6720) 540 20 20
          (color_d2d cfg_d2d_example (1 / 64) \<lparr> tx = 0, ty = 540, tz = 0.125, base = 0.75, phase = 0 \<rparr>)]"
  by (simp add: RenderFrame_p0_def rw_offscreen_example_def rt_example_def
        RenderFrame_d2d_advance_def cfg_d2d_example_def project_d2d_def psz_p0_def)

text \<open>The claim as stated fails on part_000: the star projects to a disc of radius 20
  around \<open>(-6720, 540)\<close>, entirely left of the 1920 x 1080 target, and is drawn.\<close>

theorem offscreen_p0_counterexample:
  "snd (RenderFrame_p0 cfg_d2d_example rw_offscreen_example (1 / 64) (1 / 64))
     = [FillEllipse (- 6720) 540 20 20
          (color_d2d cfg_d2d_example (1 / 64) \<lparr> tx = 0, ty = 540, tz = 0.125, base = 0.75, phase = 0 \<rparr>)]
   \<and> bbox (- 6720) 540 20 \<inter> viewport 1920 1080 = {}"
proof -
  have "bbox (- 6720) 540 20 \<inter> viewport 1920 1080 = {}"
    by (simp add: bbox_viewport_disjoint_iff)
  then show ?thesis by (simp add: RenderFrame_p0_offscreen_example)
qed

subsection \<open>C8: confirming the settings\<close>










subsection \<open>C9: InitStars is a function of its inputs\<close>

lemma InitStars_gdi_body_cong:
  fixes c1 :: "'a Config_gdi_scheme" and c2 :: "'b Config_gdi_scheme"
  shows "g_speed c1 = g_speed c2 \<Longrightarrow> InitStars_gdi_body c1 w h g = InitStars_gdi_body c2 w h g"
  by (simp add: InitStars_gdi_body_def)

lemma InitStars_gdi_loop_cong:
  fixes c1 :: "'a Config_gdi_scheme" and c2 :: "'b Config_gdi_scheme"
  shows "g_speed c1 = g_speed c2 \<Longrightarrow> InitStars_gdi_loop c1 w h n g = InitStars_gdi_loop c2 w h n g"
  by (induction n arbitrary: g) (simp_all add: InitStars_gdi_body_cong [of c1 c2])

lemma InitStars_gdi_stars:
  "map_sum id stars (InitStars_gdi cfg rw) =
     (if g_starCount cfg < 0 then Inl LengthError
      else Inr (fst (InitStars_gdi_loop cfg (max 1 (rc_right (rc rw) - rc_left (rc rw)))
                  (max 1 (rc_bottom (rc rw) - rc_top (rc rw))) (nat (g_starCount cfg)) (rng rw))))"
  by (simp add: InitStars_gdi_def Let_def split_beta)

lemma InitStars_d2d_stars:
  "map_sum id stars (InitStars_d2d cfg rw) =
     (if g_starCount cfg < 0 then Inl LengthError
      else Inr (fst (InitStars_d2d_loop (max 1 (rc_right (rc rw) - rc_left (rc rw)))
                  (max 1 (rc_bottom (rc rw) - rc_top (rc rw))) (nat (g_starCount cfg)) (rng rw))))"
  by (simp add: InitStars_d2d_def Let_def split_beta)

text \<open>
  C9 (amended).  The stars that \<^verbatim>\<open>InitStars\<close> produces (or its failure) depend on the
  generator state, the rectangle and the configured star count only, in the Direct2D
  variants; in the GDI variant they depend on the configured speed as well, which
  \<^verbatim>\<open>InitStars\<close> adds to every star's speed.  Nothing else of the window or of the
  configuration matters.
\<close>

theorem InitStars_deterministic:
  fixes c1 :: "'a Config_gdi_scheme" and c2 :: "'b Config_gdi_scheme"
    and d1 :: "'c Config_d2d_scheme" and d2 :: "'d Config_d2d_scheme"
  shows
  "(rng rw1 = rng rw2 \<and> rc rw1 = rc rw2 \<and> g_starCount c1 = g_starCount c2 \<and> g_speed c1 = g_speed c2
      \<longrightarrow> map_sum id stars (InitStars_gdi c1 rw1) = map_sum id stars (InitStars_gdi c2 rw2))
   \<and> (rng rd1 = rng rd2 \<and> rc rd1 = rc rd2 \<and> g_starCount d1 = g_starCount d2
      \<longrightarrow> map_sum id stars (InitStars_d2d d1 rd1) = map_sum id stars (InitStars_d2d d2 rd2))"
  by (simp add: InitStars_gdi_stars InitStars_d2d_stars InitStars_gdi_loop_cong [of c1 c2])

theorem InitStars_deterministic_witness:
  "map_sum id stars (InitStars_gdi cfg_gdi_example rw_gdi_example)
     = map_sum id stars (InitStars_gdi (cfg_gdi_example\<lparr> g_color := RGB 160 180 255 \<rparr>)
         (rw_gdi_example\<lparr> stars := [star_gdi_example], isPreview := True, backHdc := False \<rparr>))
   \<and> map_sum id stars (InitStars_d2d cfg_d2d_example rw_d2d_example)
     = map_sum id stars (InitStars_d2d (cfg_d2d_example\<lparr> g_speedPercent := 300, g_twinklePercent := 0 \<rparr>)
         (rw_d2d_example\<lparr> stars := [star_d2d_example], isPreview := True, rt := None \<rparr>))"
  using InitStars_deterministic [of rw_gdi_example
      "rw_gdi_example\<lparr> stars := [star_gdi_example], isPreview := True, backHdc := False \<rparr>"
      cfg_gdi_example "cfg_gdi_example\<lparr> g_color := RGB 160 180 255 \<rparr>"
      rw_d2d_example "rw_d2d_example\<lparr> stars := [star_d2d_example], isPreview := True, rt := None \<rparr>"
      cfg_d2d_example "cfg_d2d_example\<lparr> g_speedPercent := 300, g_twinklePercent := 0 \<rparr>"]
  by simp

lemma InitStars_gdi_example:
  "InitStars_gdi cfg_gdi_example rw_gdi_example =
     Inr (rw_gdi_example\<lparr> stars := [\<lparr> sx = - 960, sy = 0, sz = 2, speed = 63 \<rparr>,
                                      \<lparr> sx = - 1920, sy = - 1080, sz = 2, speed = 60 \<rparr>],
                            rng := sconst 0 \<rparr>)"
  by (simp add: InitStars_gdi_def InitStars_gdi_body_def cfg_gdi_example_def rw_gdi_example_def
      rc_example_def rng_example_def uniform_real_def rng_call_def canonical_def c_div_def
      Z_MIN_def Z_MAX_def InitStars_gdi_loop_2)

lemma InitStars_gdi_example_slow:
  "InitStars_gdi (cfg_gdi_example\<lparr> g_speed := 10 \<rparr>) rw_gdi_example =
     Inr (rw_gdi_example\<lparr> stars := [\<lparr> sx = - 960, sy = 0, sz = 2, speed = 10 \<rparr>,
                                      \<lparr> sx = - 1920, sy = - 1080, sz = 2, speed = 10 \<rparr>],
                            rng := sconst 0 \<rparr>)"
  by (simp add: InitStars_gdi_def InitStars_gdi_body_def cfg_gdi_example_def rw_gdi_example_def
      rc_example_def rng_example_def uniform_real_def rng_call_def canonical_def c_div_def
      Z_MIN_def Z_MAX_def InitStars_gdi_loop_2)

text \<open>The claim as stated fails on the GDI variant: the same window (generator,
  rectangle) and the same star count, two configured speeds, different stars.\<close>

theorem InitStars_gdi_speed_counterexample:
  "g_starCount (cfg_gdi_example\<lparr> g_speed := 10 \<rparr>) = g_starCount cfg_gdi_example
   \<and> map_sum id stars (InitStars_gdi (cfg_gdi_example\<lparr> g_speed := 10 \<rparr>) rw_gdi_example)
       \<noteq> map_sum id stars (InitStars_gdi cfg_gdi_example rw_gdi_example)"
  by (simp add: InitStars_gdi_example InitStars_gdi_example_slow)

subsection \<open>C10: the brush bucket\<close>

lemma RenderFrame_gdi_loop_brushes_length:
  "length (fst (snd (snd (RenderFrame_gdi_loop cfg w h dt pulse ss brushes g)))) = length brushes"
  by (induction ss arbitrary: brushes g) (simp_all add: split_beta Let_def)

text \<open>
  C10.  In the GDI variant the bucket index computed from an intensity lies in
  \<open>[0, BUCKETS - 1] = [0, 5]\<close>, for every star and in fact for every integer intensity; it
  is a valid index of the array of \<open>BUCKETS\<close> brushes that \<^verbatim>\<open>RenderFrame\<close> starts with, and
  the loop over the stars never changes the length of that array.
\<close>

theorem bucket_gdi_in_bounds:
  "0 \<le> bucket_gdi (intensity_gdi pulse s) \<and> bucket_gdi (intensity_gdi pulse s) \<le> BUCKETS - 1
   \<and> 0 \<le> bucket_gdi i \<and> bucket_gdi i \<le> BUCKETS - 1 \<and> BUCKETS - 1 = 5
   \<and> nat (bucket_gdi i) < length (replicate (nat BUCKETS) (None :: COLORREF option))
   \<and> length (fst (snd (snd (RenderFrame_gdi_loop cfg w h dt pulse ss brushes g)))) = length brushes"
  by (simp add: bucket_gdi_def BUCKETS_def Let_def RenderFrame_gdi_loop_brushes_length)

end
